theory Spec2Isabelle
  imports Complex_Main
begin

section \<open>The OpenBabel adaptor of pymatgen (pymatgen/io/babel.py)\<close>

text \<open>
  The module bridges pymatgen's Molecule and OpenBabel's OBMol. The adaptor class is
  embedded method by method. OpenBabel and pybel are not part of the repository, so
  every toolkit entry point the module calls is a field of the record \<open>toolkit\<close>, and
  the module is a function of that record. Python objects live in an explicit store
  (a native molecule is a reference into \<open>heap\<close>), because the adaptor shares its
  handle with its callers. Exceptions are values of the type \<open>error\<close>. Coordinates,
  Python floats in the source, are real numbers here.
\<close>

subsection \<open>Exceptions, structural molecules, Python values\<close>

datatype error = ValueError | IndexError | AttributeError | RuntimeError | IOError

type_synonym ref = nat

type_synonym vec3 = "real \<times> real \<times> real"

text \<open>
  pymatgen.core.structure is imported by the module and is not among the sources.
  A site carries its species with their occupancies and a Cartesian coordinate; a
  molecule carries its sites, its net charge and its spin multiplicity.
\<close>

record site =
  species_and_occu :: "(int \<times> real) list"
  coords :: vec3

record molecule =
  sites :: "site list"
  charge :: int
  spin_multiplicity :: int

text \<open>
  Modelled from the spec: \<open>Site.is_ordered\<close> of pymatgen.core is missing; a site is
  ordered when it "maps to exactly one definite species (no partial/statistical
  occupancy)".
\<close>

definition site_is_ordered :: "site \<Rightarrow> bool" where
  "site_is_ordered s = (case species_and_occu s of [(z, occ)] \<Rightarrow> occ = 1 | _ \<Rightarrow> False)"

text \<open>
  Modelled from the spec: \<open>Molecule.is_ordered\<close> of pymatgen.core is missing; "all
  atoms must be ordered".
\<close>

definition is_ordered :: "molecule \<Rightarrow> bool" where
  "is_ordered m = list_all site_is_ordered (sites m)"

text \<open>
  Modelled from the spec: \<open>Site.specie\<close> of pymatgen.core is missing; it is the single
  definite species of an ordered site, given here by its atomic number \<open>Z\<close>, and the
  attribute access fails on a site that has none.
\<close>

definition specie :: "site \<Rightarrow> error + int" where
  "specie s = (case species_and_occu s of
       [(z, occ)] \<Rightarrow> if occ = 1 then Inr z else Inl AttributeError
     | _ \<Rightarrow> Inl AttributeError)"

text \<open>
  Modelled from the spec: the constructor \<open>Molecule(species, coords)\<close> of pymatgen.core
  is missing; the structural molecule it builds has one ordered site per atomic number
  and coordinate ("only bare species and coordinates"), no net charge, and the lowest
  multiplicity its electron count allows.
\<close>

definition Molecule :: "int list \<Rightarrow> vec3 list \<Rightarrow> molecule" where
  "Molecule sp cs =
     \<lparr>sites = map2 (\<lambda>z c. \<lparr>species_and_occu = [(z, 1)], coords = c\<rparr>) sp cs,
      charge = 0,
      spin_multiplicity = (if even (sum_list sp) then 1 else 2)\<rparr>"

text \<open>
  The Python values the module tells apart: the constructor tests its argument with
  \<open>isinstance\<close>, \<open>confm_search\<close> compares the forcefield it looked up with \<open>0\<close> and
  looks the builtin function \<open>id\<close> up in the list of frozen atoms.
\<close>

datatype pyobj =
    NoneObj
  | IntObj int
  | StrObj string
  | BuiltinObj string
  | MoleculeObj molecule
  | OBMolObj ref
  | OBForceFieldObj nat

definition py_eq :: "pyobj \<Rightarrow> pyobj \<Rightarrow> bool" where
  "py_eq a b = (a = b)"

definition py_in :: "pyobj \<Rightarrow> pyobj list \<Rightarrow> bool" where
  "py_in x xs = list_ex (\<lambda>y. py_eq y x) xs"

fun bool_of_list :: "pyobj list option \<Rightarrow> bool" where
  "bool_of_list None = False"
| "bool_of_list (Some []) = False"
| "bool_of_list (Some (x # xs)) = True"

fun str_nat :: "nat \<Rightarrow> string" where
  "str_nat n =
     (if n < 10 then [''0123456789'' ! n]
      else str_nat (n div 10) @ [''0123456789'' ! (n mod 10)])"

declare str_nat.simps [simp del]

subsection \<open>The toolkit\<close>

text \<open>
  A native atom holds an atomic number, a position and its index in the molecule it
  was added to.
\<close>

record obatom =
  atomic_num :: int
  vector :: vec3
  idx :: nat

definition OBAtom :: obatom where
  "OBAtom = \<lparr>atomic_num = 0, vector = (0, 0, 0), idx = 0\<rparr>"

definition SetAtomicNum :: "int \<Rightarrow> obatom \<Rightarrow> obatom" where
  "SetAtomicNum atomno a = a\<lparr>atomic_num := atomno\<rparr>"

definition SetVector :: "real \<Rightarrow> real \<Rightarrow> real \<Rightarrow> obatom \<Rightarrow> obatom" where
  "SetVector x y z a = a\<lparr>vector := (x, y, z)\<rparr>"

definition GetAtomicNum :: "obatom \<Rightarrow> int" where
  "GetAtomicNum a = atomic_num a"

definition GetX :: "obatom \<Rightarrow> real" where
  "GetX a = fst (vector a)"

definition GetY :: "obatom \<Rightarrow> real" where
  "GetY a = fst (snd (vector a))"

definition GetZ :: "obatom \<Rightarrow> real" where
  "GetZ a = snd (snd (vector a))"

definition GetIndex :: "obatom \<Rightarrow> nat" where
  "GetIndex a = idx a"

text \<open>
  The set of position constraints handed to a forcefield: the atom ids added to it,
  in the order of the calls.
\<close>

definition OBFFConstraints :: "int list" where
  "OBFFConstraints = []"

definition AddAtomConstraint :: "int \<Rightarrow> int list \<Rightarrow> int list" where
  "AddAtomConstraint atom_id constraints = constraints @ [atom_id]"

text \<open>
  The entry points of openbabel and pybel that the module calls, over the state \<open>'h\<close>
  of a native molecule and the state \<open>'f\<close> of a forcefield. \<open>GetTotalCharge\<close> and
  \<open>GetTotalSpinMultiplicity\<close> are not called by the module; they are how a caller
  reads a handle back.
\<close>

record ('h, 'f) toolkit =
  OBMol :: "'h"
  BeginModify :: "'h \<Rightarrow> 'h"
  AddAtom :: "obatom \<Rightarrow> 'h \<Rightarrow> 'h"
  ConnectTheDots :: "'h \<Rightarrow> 'h"
  PerceiveBondOrders :: "'h \<Rightarrow> 'h"
  SetTotalSpinMultiplicity :: "int \<Rightarrow> 'h \<Rightarrow> 'h"
  SetTotalCharge :: "int \<Rightarrow> 'h \<Rightarrow> 'h"
  Center :: "'h \<Rightarrow> 'h"
  Kekulize :: "'h \<Rightarrow> 'h"
  EndModify :: "'h \<Rightarrow> 'h"
  OBMolAtomIter :: "'h \<Rightarrow> obatom list"
  GetTotalCharge :: "'h \<Rightarrow> int"
  GetTotalSpinMultiplicity :: "'h \<Rightarrow> int"
  Build :: "'h \<Rightarrow> 'h"
  AddHydrogens :: "'h \<Rightarrow> 'h"
  OBForceField_FindType :: "string \<Rightarrow> pyobj"
  SetConstraints :: "int list \<Rightarrow> 'f \<Rightarrow> 'f"
  WeightedRotorSearch :: "int \<Rightarrow> int \<Rightarrow> 'f \<Rightarrow> 'f"
  DiverseConfGen :: "real \<Rightarrow> int \<Rightarrow> real \<Rightarrow> bool \<Rightarrow> 'f \<Rightarrow> 'f"
  GetConformers :: "'f \<Rightarrow> 'h \<Rightarrow> 'h"
  NumConformers :: "'h \<Rightarrow> nat"
  readfile :: "string \<Rightarrow> string \<Rightarrow> error + 'h list"
  readstring :: "string \<Rightarrow> string \<Rightarrow> error + 'h"

subsection \<open>The store\<close>

text \<open>
  Native molecules are objects: \<open>heap\<close> gives the state of each, \<open>next_ref\<close> is the
  next fresh reference. The forcefields are the toolkit's own objects, found by
  \<open>OBForceField_FindType\<close>; \<open>ffs\<close> gives the state of each. \<open>stdout\<close> is what \<open>print\<close>
  wrote.
\<close>

record ('h, 'f) world =
  heap :: "ref \<Rightarrow> 'h"
  next_ref :: ref
  ffs :: "nat \<Rightarrow> 'f"
  stdout :: "string list"

definition new_object :: "'h \<Rightarrow> ('h, 'f) world \<Rightarrow> ref \<times> ('h, 'f) world" where
  "new_object h w =
     (next_ref w, w\<lparr>heap := (heap w)(next_ref w := h), next_ref := Suc (next_ref w)\<rparr>)"

definition call :: "ref \<Rightarrow> ('h \<Rightarrow> 'h) \<Rightarrow> ('h, 'f) world \<Rightarrow> ('h, 'f) world" where
  "call r f w = w\<lparr>heap := (heap w)(r := f (heap w r))\<rparr>"

definition py_print :: "string \<Rightarrow> ('h, 'f) world \<Rightarrow> ('h, 'f) world" where
  "py_print s w = w\<lparr>stdout := stdout w @ [s]\<rparr>"

text \<open>
  A method call on the value \<open>ff\<close>: it reaches the forcefield when \<open>ff\<close> is one, and is
  an attribute error on any other value. An error comes with the store as it is when
  the error is raised: what was printed or changed before stays so.
\<close>

definition ff_call ::
  "pyobj \<Rightarrow> ('f \<Rightarrow> 'f) \<Rightarrow> ('h, 'f) world \<Rightarrow>
     (error \<times> ('h, 'f) world) + ('h, 'f) world" where
  "ff_call ff f w = (case ff of
       OBForceFieldObj k \<Rightarrow> Inr (w\<lparr>ffs := (ffs w)(k := f (ffs w k))\<rparr>)
     | _ \<Rightarrow> Inl (AttributeError, w))"

definition ff_GetConformers ::
  "('h, 'f) toolkit \<Rightarrow> pyobj \<Rightarrow> ref \<Rightarrow> ('h, 'f) world \<Rightarrow>
     (error \<times> ('h, 'f) world) + ('h, 'f) world" where
  "ff_GetConformers tk ff obmol w = (case ff of
       OBForceFieldObj k \<Rightarrow> Inr (call obmol (GetConformers tk (ffs w k)) w)
     | _ \<Rightarrow> Inl (AttributeError, w))"

subsection \<open>BabelMolAdaptor\<close>

text \<open>
  The adaptor has one attribute, \<open>_obmol\<close>; \<open>None\<close> stands for an instance on which
  the attribute was never set.
\<close>

record adaptor =
  self_obmol :: "ref option"

text \<open>
  \<open>requires(pb and ob, message)\<close> of monty.dev decorates the constructor. The module
  globals \<open>ob\<close> and \<open>pb\<close> are the toolkit when both imports succeeded and \<open>None\<close> when
  one failed; the decorated function raises \<open>RuntimeError\<close> when the condition is
  false and runs the constructor otherwise.
\<close>

definition requires ::
  "'t option \<Rightarrow> ('t \<Rightarrow> 'w \<Rightarrow> (error + 'a) \<times> 'w) \<Rightarrow> 'w \<Rightarrow> (error + 'a) \<times> 'w" where
  "requires condition callable w = (case condition of
       None \<Rightarrow> (Inl RuntimeError, w)
     | Some tk \<Rightarrow> callable tk w)"

text \<open>The loop over the sites of the constructor (lines 62 to 70).\<close>

fun add_atoms ::
  "('h, 'f) toolkit \<Rightarrow> site list \<Rightarrow> ref \<Rightarrow> ('h, 'f) world \<Rightarrow> error + ('h, 'f) world" where
  "add_atoms tk [] obmol w = Inr w"
| "add_atoms tk (s # rest) obmol w =
     (case coords s of (x, y, z) \<Rightarrow>
        (case specie s of
           Inl e \<Rightarrow> Inl e
         | Inr atomno \<Rightarrow>
             let obatom = OBAtom;
                 obatom = SetAtomicNum atomno obatom;
                 obatom = SetVector x y z obatom;
                 w = call obmol (AddAtom tk obatom) w
             in add_atoms tk rest obmol w))"

definition init_body ::
  "pyobj \<Rightarrow> ('h, 'f) toolkit \<Rightarrow> ('h, 'f) world \<Rightarrow> (error + adaptor) \<times> ('h, 'f) world" where
  "init_body mol tk w = (case mol of
       MoleculeObj m \<Rightarrow>
         if \<not> is_ordered m then (Inl ValueError, w)
         else
           let (obmol, w) = new_object (OBMol tk) w;
               (obmol, w) = new_object (OBMol tk) w;
               w = call obmol (BeginModify tk) w
           in (case add_atoms tk (sites m) obmol w of
                 Inl e \<Rightarrow> (Inl e, w)
               | Inr w \<Rightarrow>
                   let w = call obmol (ConnectTheDots tk) w;
                       w = call obmol (PerceiveBondOrders tk) w;
                       w = call obmol (SetTotalSpinMultiplicity tk (spin_multiplicity m)) w;
                       w = call obmol (SetTotalCharge tk (charge m)) w;
                       w = call obmol (Center tk) w;
                       w = call obmol (Kekulize tk) w;
                       w = call obmol (EndModify tk) w
                   in (Inr \<lparr>self_obmol = Some obmol\<rparr>, w))
     | OBMolObj r \<Rightarrow> (Inr \<lparr>self_obmol = Some r\<rparr>, w)
     | _ \<Rightarrow> (Inr \<lparr>self_obmol = None\<rparr>, w))"

definition BabelMolAdaptor ::
  "('h, 'f) toolkit option \<Rightarrow> pyobj \<Rightarrow> ('h, 'f) world \<Rightarrow> (error + adaptor) \<times> ('h, 'f) world" where
  "BabelMolAdaptor ob mol w = requires ob (init_body mol) w"

text \<open>The loop of \<open>pymatgen_mol\<close> (lines 90 to 92).\<close>

fun atom_loop :: "obatom list \<Rightarrow> int list \<Rightarrow> vec3 list \<Rightarrow> int list \<times> vec3 list" where
  "atom_loop [] sp cs = (sp, cs)"
| "atom_loop (atom # rest) sp cs =
     atom_loop rest (sp @ [GetAtomicNum atom]) (cs @ [(GetX atom, GetY atom, GetZ atom)])"

definition pymatgen_mol ::
  "('h, 'f) toolkit \<Rightarrow> adaptor \<Rightarrow> ('h, 'f) world \<Rightarrow> error + molecule" where
  "pymatgen_mol tk self w = (case self_obmol self of
       None \<Rightarrow> Inl AttributeError
     | Some obmol \<Rightarrow>
         (case atom_loop (OBMolAtomIter tk (heap w obmol)) [] [] of
            (sp, cs) \<Rightarrow> Inr (Molecule sp cs)))"

definition openbabel_mol :: "adaptor \<Rightarrow> error + ref" where
  "openbabel_mol self = (case self_obmol self of
       None \<Rightarrow> Inl AttributeError
     | Some obmol \<Rightarrow> Inr obmol)"

text \<open>The loop over the atoms of \<open>confm_search\<close> (lines 153 to 156).\<close>

fun freeze_loop :: "pyobj list \<Rightarrow> obatom list \<Rightarrow> int list \<Rightarrow> int list" where
  "freeze_loop freeze_atoms [] constraints = constraints"
| "freeze_loop freeze_atoms (atom # rest) constraints =
     (let atom_id = int (GetIndex atom) + 1
      in if py_in (BuiltinObj ''id'') freeze_atoms
         then freeze_loop freeze_atoms rest (AddAtomConstraint atom_id constraints)
         else freeze_loop freeze_atoms rest constraints)"

definition not_found_message :: "string \<Rightarrow> string" where
  "not_found_message forcefield =
     ''Could not find forcefield '' @ forcefield @
     '' in openbabel, the forcefield will be reset as default '' @
     [CHR 0x27] @ ''mmff94'' @ [CHR 0x27]"

definition freeze_block ::
  "('h, 'f) toolkit \<Rightarrow> pyobj \<Rightarrow> ref \<Rightarrow> pyobj list option \<Rightarrow> ('h, 'f) world \<Rightarrow>
     (error \<times> ('h, 'f) world) + ('h, 'f) world" where
  "freeze_block tk ff obmol freeze_atoms w =
     (if bool_of_list freeze_atoms
      then (case freeze_atoms of
              None \<Rightarrow> Inr w
            | Some fa \<Rightarrow>
                let w = py_print (str_nat (length fa) @ '' atoms will be freezed'') w;
                    constraints = OBFFConstraints;
                    constraints = freeze_loop fa (OBMolAtomIter tk (heap w obmol)) constraints
                in ff_call ff (SetConstraints tk constraints) w)
      else Inr w)"

definition search_block ::
  "('h, 'f) toolkit \<Rightarrow> pyobj \<Rightarrow> ref \<Rightarrow> real \<Rightarrow> real \<Rightarrow> int \<Rightarrow> bool \<Rightarrow> ('h, 'f) world \<Rightarrow>
     (error \<times> ('h, 'f) world) + ('h, 'f) world" where
  "search_block tk ff obmol rmsd_cutoff energy_cutoff conf_cutoff verbose w =
     (case ff_call ff (WeightedRotorSearch tk 500 25) w of
        Inl e \<Rightarrow> Inl e
      | Inr w \<Rightarrow>
     (case ff_call ff (DiverseConfGen tk rmsd_cutoff conf_cutoff energy_cutoff verbose) w of
        Inl e \<Rightarrow> Inl e
      | Inr w \<Rightarrow>
     (case ff_GetConformers tk ff obmol w of
        Inl e \<Rightarrow> Inl e
      | Inr w \<Rightarrow>
          Inr (if verbose
               then py_print (''Generated '' @ str_nat (NumConformers tk (heap w obmol)) @
                              '' conformers total'') w
               else w))))"

definition confm_search ::
  "('h, 'f) toolkit \<Rightarrow> adaptor \<Rightarrow> string \<Rightarrow> pyobj list option \<Rightarrow> real \<Rightarrow> real \<Rightarrow> int \<Rightarrow>
     bool \<Rightarrow> bool \<Rightarrow> bool \<Rightarrow> ('h, 'f) world \<Rightarrow> (error + pyobj) \<times> adaptor \<times> ('h, 'f) world" where
  "confm_search tk self forcefield freeze_atoms rmsd_cutoff energy_cutoff conf_cutoff
       verbose make_3d add_hydrogens w =
     (case openbabel_mol self of
        Inl e \<Rightarrow> (Inl e, self, w)
      | Inr obmol \<Rightarrow>
          let w = (if make_3d then call obmol (Build tk) w else w);
              w = (if add_hydrogens then call obmol (AddHydrogens tk) w else w);
              ff = OBForceField_FindType tk forcefield;
              (ff, w) = (if py_eq ff (IntObj 0)
                         then (OBForceField_FindType tk ''mmff94'',
                               py_print (not_found_message forcefield) w)
                         else (ff, w))
          in (case freeze_block tk ff obmol freeze_atoms w of
                Inl (e, w) \<Rightarrow> (Inl e, self, w)
              | Inr w \<Rightarrow>
                  (case search_block tk ff obmol rmsd_cutoff energy_cutoff conf_cutoff verbose w of
                     Inl (e, w) \<Rightarrow> (Inl e, self, w)
                   | Inr w \<Rightarrow> (Inr NoneObj, self\<lparr>self_obmol := Some obmol\<rparr>, w))))"

text \<open>
  \<open>from_file\<close> and \<open>from_string\<close>. A pybel molecule wraps a native molecule; it is
  modelled by the reference of the native molecule it wraps, which is what its
  attribute \<open>OBMol\<close> gives. Without the toolkit \<open>pb\<close> is \<open>None\<close> and the attribute
  access on it fails.
\<close>

fun new_objects :: "'h list \<Rightarrow> ('h, 'f) world \<Rightarrow> ref list \<times> ('h, 'f) world" where
  "new_objects [] w = ([], w)"
| "new_objects (h # hs) w =
     (case new_object h w of (r, w) \<Rightarrow>
        (case new_objects hs w of (rs, w) \<Rightarrow> (r # rs, w)))"

definition from_file ::
  "('h, 'f) toolkit option \<Rightarrow> string \<Rightarrow> string \<Rightarrow> ('h, 'f) world \<Rightarrow>
     (error + adaptor) \<times> ('h, 'f) world" where
  "from_file ob filename file_format w = (case ob of
       None \<Rightarrow> (Inl AttributeError, w)
     | Some tk \<Rightarrow>
         (case readfile tk file_format filename of
            Inl e \<Rightarrow> (Inl e, w)
          | Inr parsed \<Rightarrow>
              (case new_objects parsed w of (mols, w) \<Rightarrow>
                 (case mols of
                    [] \<Rightarrow> (Inl IndexError, w)
                  | first # others \<Rightarrow> BabelMolAdaptor ob (OBMolObj first) w))))"

definition from_string ::
  "('h, 'f) toolkit option \<Rightarrow> string \<Rightarrow> string \<Rightarrow> ('h, 'f) world \<Rightarrow>
     (error + adaptor) \<times> ('h, 'f) world" where
  "from_string ob string_data file_format w = (case ob of
       None \<Rightarrow> (Inl AttributeError, w)
     | Some tk \<Rightarrow>
         (case readstring tk file_format string_data of
            Inl e \<Rightarrow> (Inl e, w)
          | Inr parsed \<Rightarrow>
              (case new_object parsed w of (mols, w) \<Rightarrow>
                 BabelMolAdaptor ob (OBMolObj mols) w)))"

subsection \<open>Centred coordinates\<close>

text \<open>
  The positions of a molecule translated so that their centroid is the origin, in
  exact arithmetic.
\<close>

definition vadd :: "vec3 \<Rightarrow> vec3 \<Rightarrow> vec3" where
  "vadd a b = (case a of (x, y, z) \<Rightarrow> (case b of (x', y', z') \<Rightarrow> (x + x', y + y', z + z')))"

definition vsub :: "vec3 \<Rightarrow> vec3 \<Rightarrow> vec3" where
  "vsub a b = (case a of (x, y, z) \<Rightarrow> (case b of (x', y', z') \<Rightarrow> (x - x', y - y', z - z')))"

definition centroid :: "vec3 list \<Rightarrow> vec3" where
  "centroid cs = (case foldr vadd cs (0, 0, 0) of (x, y, z) \<Rightarrow>
     (x / real (length cs), y / real (length cs), z / real (length cs)))"

definition centered :: "vec3 list \<Rightarrow> vec3 list" where
  "centered cs = map (\<lambda>c. vsub c (centroid cs)) cs"

subsection \<open>A reference toolkit\<close>

text \<open>
  One toolkit to run the module on: a native molecule is its atoms, its total charge
  and spin multiplicity, the number of conformers it carries and the log of the calls
  made on it; a forcefield is the constraints it was given, the number of conformers
  it generated and the log of the calls made on it. It reads two files and one string,
  and knows the forcefields mmff94 and uff.
\<close>

record ref_mol =
  atoms :: "obatom list"
  total_charge :: int
  total_spin :: int
  conformers :: nat
  calls :: "string list"

record ref_ff =
  ff_constraints :: "int list"
  ff_conformers :: nat
  ff_calls :: "string list"

definition logged :: "string \<Rightarrow> ref_mol \<Rightarrow> ref_mol" where
  "logged name h = h\<lparr>calls := calls h @ [name]\<rparr>"

definition ff_logged :: "string \<Rightarrow> ref_ff \<Rightarrow> ref_ff" where
  "ff_logged name f = f\<lparr>ff_calls := ff_calls f @ [name]\<rparr>"

definition empty_mol :: ref_mol where
  "empty_mol = \<lparr>atoms = [], total_charge = 0, total_spin = 1, conformers = 0, calls = []\<rparr>"

definition empty_ff :: ref_ff where
  "empty_ff = \<lparr>ff_constraints = [], ff_conformers = 0, ff_calls = []\<rparr>"

definition ref_AddAtom :: "obatom \<Rightarrow> ref_mol \<Rightarrow> ref_mol" where
  "ref_AddAtom a h = logged ''AddAtom'' (h\<lparr>atoms := atoms h @ [a\<lparr>idx := length (atoms h)\<rparr>]\<rparr>)"

definition ref_Center :: "ref_mol \<Rightarrow> ref_mol" where
  "ref_Center h =
     logged ''Center''
       (h\<lparr>atoms := map (\<lambda>a. a\<lparr>vector := vsub (vector a) (centroid (map vector (atoms h)))\<rparr>)
                       (atoms h)\<rparr>)"

definition hydrogen_mol :: ref_mol where
  "hydrogen_mol =
     \<lparr>atoms = [\<lparr>atomic_num = 1, vector = (0, 0, 0), idx = 0\<rparr>,
               \<lparr>atomic_num = 1, vector = (0, 0, 1), idx = 1\<rparr>],
      total_charge = 0, total_spin = 1, conformers = 0, calls = []\<rparr>"

definition ref_FindType :: "string \<Rightarrow> pyobj" where
  "ref_FindType name =
     (if name = ''mmff94'' then OBForceFieldObj 0
      else if name = ''uff'' then OBForceFieldObj 1
      else IntObj 0)"

definition ref_readfile :: "string \<Rightarrow> string \<Rightarrow> error + ref_mol list" where
  "ref_readfile file_format filename =
     (if filename = ''h2.xyz'' then Inr [hydrogen_mol, empty_mol]
      else if filename = ''empty.xyz'' then Inr []
      else Inl IOError)"

definition ref_readstring :: "string \<Rightarrow> string \<Rightarrow> error + ref_mol" where
  "ref_readstring file_format string_data =
     (if string_data = ''h2'' then Inr hydrogen_mol else Inl IOError)"

definition ref_toolkit :: "(ref_mol, ref_ff) toolkit" where
  "ref_toolkit =
     \<lparr>OBMol = empty_mol,
      BeginModify = logged ''BeginModify'',
      AddAtom = ref_AddAtom,
      ConnectTheDots = logged ''ConnectTheDots'',
      PerceiveBondOrders = logged ''PerceiveBondOrders'',
      SetTotalSpinMultiplicity = (\<lambda>s h. logged ''SetTotalSpinMultiplicity'' (h\<lparr>total_spin := s\<rparr>)),
      SetTotalCharge = (\<lambda>c h. logged ''SetTotalCharge'' (h\<lparr>total_charge := c\<rparr>)),
      Center = ref_Center,
      Kekulize = logged ''Kekulize'',
      EndModify = logged ''EndModify'',
      OBMolAtomIter = atoms,
      GetTotalCharge = total_charge,
      GetTotalSpinMultiplicity = total_spin,
      Build = logged ''Build'',
      AddHydrogens = logged ''AddHydrogens'',
      OBForceField_FindType = ref_FindType,
      SetConstraints = (\<lambda>cs f. ff_logged ''SetConstraints'' (f\<lparr>ff_constraints := cs\<rparr>)),
      WeightedRotorSearch = (\<lambda>n k f. ff_logged ''WeightedRotorSearch'' f),
      DiverseConfGen =
        (\<lambda>rmsd conf energy verbose f. ff_logged ''DiverseConfGen'' (f\<lparr>ff_conformers := 3\<rparr>)),
      GetConformers = (\<lambda>f h. logged ''GetConformers'' (h\<lparr>conformers := ff_conformers f\<rparr>)),
      NumConformers = conformers,
      readfile = ref_readfile,
      readstring = ref_readstring\<rparr>"

definition ref_world :: "(ref_mol, ref_ff) world" where
  "ref_world = \<lparr>heap = (\<lambda>r. empty_mol), next_ref = 0, ffs = (\<lambda>k. empty_ff), stdout = []\<rparr>"

definition disordered_molecule :: molecule where
  "disordered_molecule =
     \<lparr>sites = [\<lparr>species_and_occu = [(1, 1)], coords = (0, 0, 0)\<rparr>,
               \<lparr>species_and_occu = [(8, 1 / 2), (16, 1 / 2)], coords = (0, 0, 1)\<rparr>],
      charge = 0, spin_multiplicity = 1\<rparr>"

definition hydrogen_world :: "(ref_mol, ref_ff) world" where
  "hydrogen_world =
     \<lparr>heap = (\<lambda>r. if r = 0 then hydrogen_mol else empty_mol), next_ref = 1,
      ffs = (\<lambda>k. empty_ff), stdout = []\<rparr>"

definition hydrogen_adaptor :: adaptor where
  "hydrogen_adaptor = \<lparr>self_obmol = Some 0\<rparr>"

subsection \<open>What the theorems say about the toolkit\<close>

text \<open>
  The native atoms the constructor hands to \<open>AddAtom\<close>, in the order of the sites: one
  for each site that has a single definite species.
\<close>

definition native_atom :: "site \<Rightarrow> obatom list" where
  "native_atom s = (case coords s of (x, y, z) \<Rightarrow>
     (case specie s of
        Inl e \<Rightarrow> []
      | Inr atomno \<Rightarrow> [SetVector x y z (SetAtomicNum atomno OBAtom)]))"

definition native_atoms :: "molecule \<Rightarrow> obatom list" where
  "native_atoms m = concat (map native_atom (sites m))"

text \<open>
  The laws of the toolkit that the read-back properties rest on. \<open>same_atoms\<close>: a call
  leaves the atoms as they are. \<open>same_species\<close>: a call leaves the atomic numbers and
  indices as they are. \<open>atoms_contract\<close>: a new molecule has no atom, \<open>AddAtom\<close> appends
  the atom and gives it the next index, and bond perception, the setters of charge and
  multiplicity, kekulization and the two ends of a build session leave the atoms as
  they are. \<open>center_contract\<close>: \<open>Center\<close> translates every atom by the centroid.
\<close>

definition same_atoms :: "('h, 'f) toolkit \<Rightarrow> ('h \<Rightarrow> 'h) \<Rightarrow> bool" where
  "same_atoms tk f = (\<forall>h. OBMolAtomIter tk (f h) = OBMolAtomIter tk h)"

definition same_species :: "('h, 'f) toolkit \<Rightarrow> ('h \<Rightarrow> 'h) \<Rightarrow> bool" where
  "same_species tk f =
     (\<forall>h. map atomic_num (OBMolAtomIter tk (f h)) = map atomic_num (OBMolAtomIter tk h)
          \<and> map idx (OBMolAtomIter tk (f h)) = map idx (OBMolAtomIter tk h))"

definition atoms_contract :: "('h, 'f) toolkit \<Rightarrow> bool" where
  "atoms_contract tk =
     (OBMolAtomIter tk (OBMol tk) = []
      \<and> (\<forall>a h. OBMolAtomIter tk (AddAtom tk a h)
                 = OBMolAtomIter tk h @ [a\<lparr>idx := length (OBMolAtomIter tk h)\<rparr>])
      \<and> same_atoms tk (BeginModify tk)
      \<and> same_atoms tk (ConnectTheDots tk)
      \<and> same_atoms tk (PerceiveBondOrders tk)
      \<and> (\<forall>s. same_atoms tk (SetTotalSpinMultiplicity tk s))
      \<and> (\<forall>c. same_atoms tk (SetTotalCharge tk c))
      \<and> same_atoms tk (Kekulize tk)
      \<and> same_atoms tk (EndModify tk))"

definition center_contract :: "('h, 'f) toolkit \<Rightarrow> bool" where
  "center_contract tk =
     (\<forall>h. OBMolAtomIter tk (Center tk h)
            = map (\<lambda>a. a\<lparr>vector := vsub (vector a) (centroid (map vector (OBMolAtomIter tk h)))\<rparr>)
                  (OBMolAtomIter tk h))"

text \<open>
  The state of the handle the constructor leaves for an ordered molecule: the calls of
  lines 60 to 77, innermost first.
\<close>

definition built :: "('h, 'f) toolkit \<Rightarrow> molecule \<Rightarrow> 'h" where
  "built tk m =
     EndModify tk (Kekulize tk (Center tk
       (SetTotalCharge tk (charge m)
         (SetTotalSpinMultiplicity tk (spin_multiplicity m)
           (PerceiveBondOrders tk (ConnectTheDots tk
             (foldl (\<lambda>h a. AddAtom tk a h) (BeginModify tk (OBMol tk)) (native_atoms m))))))))"

text \<open>Two ordered molecules: H2 off centre, and the cation H2+ as a doublet.\<close>

definition hydrogen_molecule :: molecule where
  "hydrogen_molecule =
     \<lparr>sites = [\<lparr>species_and_occu = [(1, 1)], coords = (0, 0, 0)\<rparr>,
               \<lparr>species_and_occu = [(1, 1)], coords = (0, 0, 1)\<rparr>],
      charge = 0, spin_multiplicity = 1\<rparr>"

definition hydrogen_cation :: molecule where
  "hydrogen_cation =
     \<lparr>sites = [\<lparr>species_and_occu = [(1, 1)], coords = (0, 0, 0)\<rparr>,
               \<lparr>species_and_occu = [(1, 1)], coords = (0, 0, 1)\<rparr>],
      charge = 1, spin_multiplicity = 2\<rparr>"

subsection \<open>The toolkit inside a build session\<close>

text \<open>
  A second toolkit on the states of the reference toolkit. It differs from it at three
  points, where it does what the OpenBabel binding does. While a build session is open
  (more \<open>BeginModify\<close> than \<open>EndModify\<close> so far) \<open>Center\<close> moves no atom. \<open>EndModify\<close>
  drops the total charge and the spin multiplicity that were set on the molecule, which
  then read \<open>0\<close> and \<open>1\<close>. The lookup of a forcefield that does not exist gives \<open>None\<close>.
\<close>

definition in_session :: "ref_mol \<Rightarrow> bool" where
  "in_session h =
     (length (filter (\<lambda>c. c = ''EndModify'') (calls h))
        < length (filter (\<lambda>c. c = ''BeginModify'') (calls h)))"

definition session_Center :: "ref_mol \<Rightarrow> ref_mol" where
  "session_Center h = (if in_session h then logged ''Center'' h else ref_Center h)"

definition session_EndModify :: "ref_mol \<Rightarrow> ref_mol" where
  "session_EndModify h = logged ''EndModify'' (h\<lparr>total_charge := 0, total_spin := 1\<rparr>)"

definition none_FindType :: "string \<Rightarrow> pyobj" where
  "none_FindType name =
     (if name = ''mmff94'' then OBForceFieldObj 0
      else if name = ''uff'' then OBForceFieldObj 1
      else NoneObj)"

definition session_toolkit :: "(ref_mol, ref_ff) toolkit" where
  "session_toolkit =
     ref_toolkit\<lparr>Center := session_Center, EndModify := session_EndModify,
                 OBForceField_FindType := none_FindType\<rparr>"

section \<open>Properties\<close>

subsection \<open>Rejected and unrecognised constructor arguments\<close>

text \<open>
  C3. A structural molecule with at least one site that has no single definite species
  makes the constructor raise ValueError (the spec's InvalidInputError); no native
  molecule is created, the store is as it was, and no adaptor comes back.
\<close>

theorem disordered_molecule_rejected:
  assumes "s \<in> set (sites m)" and "\<not> site_is_ordered s"
  shows "BabelMolAdaptor (Some tk) (MoleculeObj m) w = (Inl ValueError, w)"
proof -
  from assms have "\<not> is_ordered m"
    by (auto simp: is_ordered_def list_all_iff)
  then show ?thesis
    by (simp add: BabelMolAdaptor_def requires_def init_body_def)
qed

theorem disordered_molecule_rejected_witness:
  "sites disordered_molecule ! 1 \<in> set (sites disordered_molecule)
   \<and> \<not> site_is_ordered (sites disordered_molecule ! 1)
   \<and> BabelMolAdaptor (Some ref_toolkit) (MoleculeObj disordered_molecule) ref_world
       = (Inl ValueError, ref_world)"
proof -
  have a: "sites disordered_molecule ! 1 \<in> set (sites disordered_molecule)"
    by (simp add: disordered_molecule_def)
  have b: "\<not> site_is_ordered (sites disordered_molecule ! 1)"
    by (simp add: disordered_molecule_def site_is_ordered_def)
  show ?thesis
    using a b disordered_molecule_rejected [OF a b, of ref_toolkit ref_world] by simp
qed

text \<open>
  C10. With the toolkit imported, an argument that is neither a pymatgen Molecule nor
  an OBMol makes the constructor return normally, with the store as it was and an
  adaptor on which the attribute was never set; the accessors, and every method that
  starts with one, then fail with AttributeError.
\<close>

theorem unrecognised_argument_leaves_no_handle:
  assumes "\<forall>m. mol \<noteq> MoleculeObj m" and "\<forall>r. mol \<noteq> OBMolObj r"
  shows "\<exists>a. BabelMolAdaptor (Some tk) mol w = (Inr a, w)
           \<and> self_obmol a = None
           \<and> openbabel_mol a = Inl AttributeError
           \<and> pymatgen_mol tk a w = Inl AttributeError
           \<and> fst (confm_search tk a ff fa rmsd energy conf verbose make_3d add_h w)
               = Inl AttributeError"
  using assms
  by (cases mol)
     (simp_all add: BabelMolAdaptor_def requires_def init_body_def openbabel_mol_def
        pymatgen_mol_def confm_search_def)

theorem unrecognised_argument_leaves_no_handle_witness:
  "BabelMolAdaptor (Some ref_toolkit) (StrObj ''H2O'') ref_world
     = (Inr \<lparr>self_obmol = None\<rparr>, ref_world)
   \<and> openbabel_mol \<lparr>self_obmol = None\<rparr> = Inl AttributeError
   \<and> pymatgen_mol ref_toolkit \<lparr>self_obmol = None\<rparr> ref_world = Inl AttributeError"
proof -
  have a: "\<forall>m. StrObj ''H2O'' \<noteq> MoleculeObj m" by simp
  have b: "\<forall>r. StrObj ''H2O'' \<noteq> OBMolObj r" by simp
  from unrecognised_argument_leaves_no_handle [OF a b, of ref_toolkit ref_world]
  obtain a where "BabelMolAdaptor (Some ref_toolkit) (StrObj ''H2O'') ref_world = (Inr a, ref_world)"
    and "self_obmol a = None"
    and "openbabel_mol a = Inl AttributeError"
    and "pymatgen_mol ref_toolkit a ref_world = Inl AttributeError"
    by blast
  moreover from this have "a = \<lparr>self_obmol = None\<rparr>" by (cases a) simp
  ultimately show ?thesis by simp
qed

subsection \<open>Facts about the store and the loops\<close>

lemma heap_call: "heap (call r f w) = (heap w)(r := f (heap w r))"
  by (simp add: call_def)

lemma next_ref_call: "next_ref (call r f w) = next_ref w"
  by (simp add: call_def)

lemma ffs_call: "ffs (call r f w) = ffs w"
  by (simp add: call_def)

lemma stdout_call: "stdout (call r f w) = stdout w"
  by (simp add: call_def)

lemma heap_py_print: "heap (py_print s w) = heap w"
  by (simp add: py_print_def)

lemma new_objects_keeps:
  "new_objects hs w = (rs, w') \<Longrightarrow>
     next_ref w \<le> next_ref w' \<and> (\<forall>r < next_ref w. heap w' r = heap w r)"
proof (induction hs arbitrary: w rs w')
  case Nil
  then show ?case by simp
next
  case (Cons h hs)
  obtain r w1 where a: "new_object h w = (r, w1)" by (cases "new_object h w")
  obtain rs1 w2 where b: "new_objects hs w1 = (rs1, w2)" by (cases "new_objects hs w1")
  from a have c: "next_ref w1 = Suc (next_ref w)" "heap w1 = (heap w)(next_ref w := h)"
    by (auto simp: new_object_def)
  from Cons.prems a b have d: "w' = w2" by simp
  from Cons.IH [OF b] c d show ?case by auto
qed

lemma atom_loop_eq:
  "atom_loop as sp cs = (sp @ map atomic_num as, cs @ map vector as)"
  by (induction as arbitrary: sp cs) (simp_all add: GetAtomicNum_def GetX_def GetY_def GetZ_def)

lemma pymatgen_mol_eq:
  "self_obmol a = Some r \<Longrightarrow>
     pymatgen_mol tk a w =
       Inr (Molecule (map atomic_num (OBMolAtomIter tk (heap w r)))
                     (map vector (OBMolAtomIter tk (heap w r))))"
  by (simp add: pymatgen_mol_def atom_loop_eq)

subsection \<open>Reading a molecule from a file or a string\<close>

text \<open>
  C4. \<open>from_file\<close> raises IndexError when the reader yields no molecule, and
  \<open>from_string\<close> passes on the error the reader raises when it cannot produce one;
  neither returns an adaptor then. When the reader yields molecules, the adaptor that
  comes back holds the first of them.
\<close>

theorem from_file_from_string_first_molecule:
  "(readfile tk file_format filename = Inr [] \<longrightarrow>
      from_file (Some tk) filename file_format w = (Inl IndexError, w))
   \<and> (readfile tk file_format filename = Inl e \<longrightarrow>
      from_file (Some tk) filename file_format w = (Inl e, w))
   \<and> (readfile tk file_format filename = Inr (h # hs) \<longrightarrow>
      (\<exists>a w'. from_file (Some tk) filename file_format w = (Inr a, w')
          \<and> self_obmol a = Some (next_ref w) \<and> heap w' (next_ref w) = h))
   \<and> (readstring tk file_format string_data = Inl e \<longrightarrow>
      from_string (Some tk) string_data file_format w = (Inl e, w))
   \<and> (readstring tk file_format string_data = Inr h \<longrightarrow>
      (\<exists>a w'. from_string (Some tk) string_data file_format w = (Inr a, w')
          \<and> self_obmol a = Some (next_ref w) \<and> heap w' (next_ref w) = h))"
proof -
  have empty: "readfile tk file_format filename = Inr [] \<Longrightarrow>
      from_file (Some tk) filename file_format w = (Inl IndexError, w)"
    by (simp add: from_file_def)
  have failed: "readfile tk file_format filename = Inl e \<Longrightarrow>
      from_file (Some tk) filename file_format w = (Inl e, w)"
    by (simp add: from_file_def)
  have first: "\<exists>a w'. from_file (Some tk) filename file_format w = (Inr a, w')
          \<and> self_obmol a = Some (next_ref w) \<and> heap w' (next_ref w) = h"
    if r: "readfile tk file_format filename = Inr (h # hs)"
  proof -
    obtain rs w2 where b: "new_objects hs (snd (new_object h w)) = (rs, w2)"
      by (cases "new_objects hs (snd (new_object h w))")
    have c: "next_ref (snd (new_object h w)) = Suc (next_ref w)"
      "heap (snd (new_object h w)) (next_ref w) = h"
      by (simp_all add: new_object_def)
    from new_objects_keeps [OF b] c have "heap w2 (next_ref w) = h" by simp
    moreover have "from_file (Some tk) filename file_format w
        = (Inr \<lparr>self_obmol = Some (next_ref w)\<rparr>, w2)"
      using r b
      by (simp add: from_file_def new_object_def BabelMolAdaptor_def requires_def init_body_def)
    ultimately show ?thesis by simp
  qed
  have sfailed: "readstring tk file_format string_data = Inl e \<Longrightarrow>
      from_string (Some tk) string_data file_format w = (Inl e, w)"
    by (simp add: from_string_def)
  have sfirst: "readstring tk file_format string_data = Inr h \<Longrightarrow>
      (\<exists>a w'. from_string (Some tk) string_data file_format w = (Inr a, w')
          \<and> self_obmol a = Some (next_ref w) \<and> heap w' (next_ref w) = h)"
    by (simp add: from_string_def new_object_def BabelMolAdaptor_def requires_def init_body_def)
  from empty failed first sfailed sfirst show ?thesis by blast
qed

theorem from_file_from_string_first_molecule_witness:
  "from_file (Some ref_toolkit) ''empty.xyz'' ''xyz'' ref_world = (Inl IndexError, ref_world)
   \<and> from_file (Some ref_toolkit) ''missing.xyz'' ''xyz'' ref_world = (Inl IOError, ref_world)
   \<and> (\<exists>a w'. from_file (Some ref_toolkit) ''h2.xyz'' ''xyz'' ref_world = (Inr a, w')
         \<and> self_obmol a = Some 0 \<and> heap w' 0 = hydrogen_mol)
   \<and> from_string (Some ref_toolkit) ''bad'' ''xyz'' ref_world = (Inl IOError, ref_world)
   \<and> (\<exists>a w'. from_string (Some ref_toolkit) ''h2'' ''xyz'' ref_world = (Inr a, w')
         \<and> self_obmol a = Some 0 \<and> heap w' 0 = hydrogen_mol)"
proof -
  have a: "readfile ref_toolkit ''xyz'' ''empty.xyz'' = Inr []"
    by (simp add: ref_toolkit_def ref_readfile_def)
  have b: "readfile ref_toolkit ''xyz'' ''missing.xyz'' = Inl IOError"
    by (simp add: ref_toolkit_def ref_readfile_def)
  have c: "readfile ref_toolkit ''xyz'' ''h2.xyz'' = Inr (hydrogen_mol # [empty_mol])"
    by (simp add: ref_toolkit_def ref_readfile_def)
  have d: "readstring ref_toolkit ''xyz'' ''bad'' = Inl IOError"
    by (simp add: ref_toolkit_def ref_readstring_def)
  have e: "readstring ref_toolkit ''xyz'' ''h2'' = Inr hydrogen_mol"
    by (simp add: ref_toolkit_def ref_readstring_def)
  have n: "next_ref ref_world = 0" by (simp add: ref_world_def)
  from from_file_from_string_first_molecule
         [of ref_toolkit "''xyz''" "''empty.xyz''" ref_world IOError hydrogen_mol "[]" "''bad''"] a
  have 1: "from_file (Some ref_toolkit) ''empty.xyz'' ''xyz'' ref_world = (Inl IndexError, ref_world)"
    by blast
  from from_file_from_string_first_molecule
         [of ref_toolkit "''xyz''" "''missing.xyz''" ref_world IOError hydrogen_mol "[]" "''bad''"] b d
  have 2: "from_file (Some ref_toolkit) ''missing.xyz'' ''xyz'' ref_world = (Inl IOError, ref_world)"
    and 4: "from_string (Some ref_toolkit) ''bad'' ''xyz'' ref_world = (Inl IOError, ref_world)"
    by blast+
  from from_file_from_string_first_molecule
         [of ref_toolkit "''xyz''" "''h2.xyz''" ref_world IOError hydrogen_mol "[empty_mol]" "''h2''"] c e n
  have 3: "\<exists>a w'. from_file (Some ref_toolkit) ''h2.xyz'' ''xyz'' ref_world = (Inr a, w')
         \<and> self_obmol a = Some 0 \<and> heap w' 0 = hydrogen_mol"
    and 5: "\<exists>a w'. from_string (Some ref_toolkit) ''h2'' ''xyz'' ref_world = (Inr a, w')
         \<and> self_obmol a = Some 0 \<and> heap w' 0 = hydrogen_mol"
    by simp_all
  from 1 2 3 4 5 show ?thesis by blast
qed

subsection \<open>The fields of the reference toolkit\<close>

lemma ref_toolkit_fields:
  "OBMol ref_toolkit = empty_mol"
  "BeginModify ref_toolkit = logged ''BeginModify''"
  "AddAtom ref_toolkit = ref_AddAtom"
  "ConnectTheDots ref_toolkit = logged ''ConnectTheDots''"
  "PerceiveBondOrders ref_toolkit = logged ''PerceiveBondOrders''"
  "SetTotalSpinMultiplicity ref_toolkit s h = logged ''SetTotalSpinMultiplicity'' (h\<lparr>total_spin := s\<rparr>)"
  "SetTotalCharge ref_toolkit c h = logged ''SetTotalCharge'' (h\<lparr>total_charge := c\<rparr>)"
  "Center ref_toolkit = ref_Center"
  "Kekulize ref_toolkit = logged ''Kekulize''"
  "EndModify ref_toolkit = logged ''EndModify''"
  "OBMolAtomIter ref_toolkit = atoms"
  "GetTotalCharge ref_toolkit = total_charge"
  "GetTotalSpinMultiplicity ref_toolkit = total_spin"
  "Build ref_toolkit = logged ''Build''"
  "AddHydrogens ref_toolkit = logged ''AddHydrogens''"
  "OBForceField_FindType ref_toolkit = ref_FindType"
  "SetConstraints ref_toolkit cs f = ff_logged ''SetConstraints'' (f\<lparr>ff_constraints := cs\<rparr>)"
  "WeightedRotorSearch ref_toolkit n k f = ff_logged ''WeightedRotorSearch'' f"
  "DiverseConfGen ref_toolkit rmsd conf energy verbose f
     = ff_logged ''DiverseConfGen'' (f\<lparr>ff_conformers := 3\<rparr>)"
  "GetConformers ref_toolkit f h = logged ''GetConformers'' (h\<lparr>conformers := ff_conformers f\<rparr>)"
  "NumConformers ref_toolkit = conformers"
  "readfile ref_toolkit = ref_readfile"
  "readstring ref_toolkit = ref_readstring"
  by (simp_all add: ref_toolkit_def)

subsection \<open>The shared handle\<close>

text \<open>
  C8. \<open>openbabel_mol\<close> returns the reference the adaptor holds, not a copy: it returns
  \<open>r\<close> exactly when \<open>r\<close> is the held reference, and after any mutation \<open>f\<close> made through
  the returned reference the adaptor's handle is in the mutated state, which is also
  what \<open>pymatgen_mol\<close> then reads.
\<close>

theorem openbabel_mol_shares_handle:
  "(openbabel_mol a = Inr r \<longleftrightarrow> self_obmol a = Some r)
   \<and> (openbabel_mol a = Inr r \<longrightarrow>
        heap (call r f w) r = f (heap w r)
        \<and> pymatgen_mol tk a (call r f w) =
            Inr (Molecule (map atomic_num (OBMolAtomIter tk (f (heap w r))))
                          (map vector (OBMolAtomIter tk (f (heap w r))))))"
proof -
  have iff: "openbabel_mol a = Inr r \<longleftrightarrow> self_obmol a = Some r"
    by (simp add: openbabel_mol_def split: option.splits)
  have seen: "heap (call r f w) r = f (heap w r)"
    by (simp add: heap_call)
  have "pymatgen_mol tk a (call r f w) =
            Inr (Molecule (map atomic_num (OBMolAtomIter tk (f (heap w r))))
                          (map vector (OBMolAtomIter tk (f (heap w r)))))"
    if "self_obmol a = Some r"
    using pymatgen_mol_eq [OF that, of tk "call r f w"] by (simp add: heap_call)
  with iff seen show ?thesis by blast
qed

theorem openbabel_mol_shares_handle_witness:
  "openbabel_mol hydrogen_adaptor = Inr 0
   \<and> self_obmol hydrogen_adaptor = Some 0
   \<and> total_charge (heap hydrogen_world 0) = 0
   \<and> total_charge (heap (call 0 (SetTotalCharge ref_toolkit 1) hydrogen_world) 0) = 1
   \<and> pymatgen_mol ref_toolkit hydrogen_adaptor
        (call 0 (AddAtom ref_toolkit \<lparr>atomic_num = 8, vector = (0, 1, 0), idx = 0\<rparr>)
           hydrogen_world)
      = Inr (Molecule [1, 1, 8] [(0, 0, 0), (0, 0, 1), (0, 1, 0)])"
proof -
  have a: "openbabel_mol hydrogen_adaptor = Inr 0"
    by (simp add: openbabel_mol_def hydrogen_adaptor_def)
  have b: "f (heap hydrogen_world 0) = f hydrogen_mol" for f :: "ref_mol \<Rightarrow> ref_mol"
    by (simp add: hydrogen_world_def)
  from openbabel_mol_shares_handle
         [of hydrogen_adaptor 0 "SetTotalCharge ref_toolkit 1" hydrogen_world ref_toolkit] a
  have c: "self_obmol hydrogen_adaptor = Some 0"
    and d: "heap (call 0 (SetTotalCharge ref_toolkit 1) hydrogen_world) 0
              = SetTotalCharge ref_toolkit 1 (heap hydrogen_world 0)"
    by simp_all
  from openbabel_mol_shares_handle
         [of hydrogen_adaptor 0
             "AddAtom ref_toolkit \<lparr>atomic_num = 8, vector = (0, 1, 0), idx = 0\<rparr>"
             hydrogen_world ref_toolkit] a
  have e: "pymatgen_mol ref_toolkit hydrogen_adaptor
        (call 0 (AddAtom ref_toolkit \<lparr>atomic_num = 8, vector = (0, 1, 0), idx = 0\<rparr>)
           hydrogen_world)
      = Inr (Molecule [1, 1, 8] [(0, 0, 0), (0, 0, 1), (0, 1, 0)])"
    by (simp add: b ref_toolkit_fields ref_AddAtom_def logged_def hydrogen_mol_def)
  have f: "total_charge (heap hydrogen_world 0) = 0"
    by (simp add: hydrogen_world_def hydrogen_mol_def)
  from d have g: "total_charge (heap (call 0 (SetTotalCharge ref_toolkit 1) hydrogen_world) 0) = 1"
    by (simp add: b ref_toolkit_fields logged_def hydrogen_mol_def)
  from a c e f g show ?thesis by simp
qed

subsection \<open>The frozen atoms of the conformer search\<close>

text \<open>
  What the loop of lines 153 to 156 does: the test \<open>id in freeze_atoms\<close> looks the
  builtin function \<open>id\<close> up, not \<open>atom_id\<close>, so it does not depend on the atom. With a
  list of indices no constraint is added.
\<close>

lemma freeze_loop_all_or_nothing:
  "freeze_loop fa as cs =
     (if py_in (BuiltinObj ''id'') fa then cs @ map (\<lambda>a. int (idx a) + 1) as else cs)"
  by (induction as arbitrary: cs) (simp_all add: AddAtomConstraint_def GetIndex_def)

lemma freeze_loop_indices:
  "freeze_loop (map IntObj is) as cs = cs"
  by (auto simp: freeze_loop_all_or_nothing py_in_def py_eq_def list_ex_iff)

text \<open>
  C2. The loop does not constrain the atoms whose index is in \<open>freeze_atoms\<close>: atom \<open>1\<close>
  of a hydrogen molecule (native index \<open>0\<close>) is in \<open>freeze_atoms = [1]\<close>, and the loop
  adds no constraint on it; the forcefield of a whole search with that list is given
  the empty constraint set.
\<close>

theorem freeze_atoms_never_matched:
  "IntObj (int (GetIndex (atoms hydrogen_mol ! 0)) + 1) \<in> set [IntObj 1]
   \<and> freeze_loop [IntObj 1] (atoms hydrogen_mol) OBFFConstraints = []
   \<and> (case confm_search ref_toolkit hydrogen_adaptor ''mmff94'' (Some [IntObj 1])
             (1 / 2) 50 100000 False False False hydrogen_world of
        (result, self, w) \<Rightarrow>
          result = Inr NoneObj
          \<and> ff_constraints (ffs w 0) = []
          \<and> ff_calls (ffs w 0) = [''SetConstraints'', ''WeightedRotorSearch'', ''DiverseConfGen''])"
proof -
  have a: "IntObj (int (GetIndex (atoms hydrogen_mol ! 0)) + 1) \<in> set [IntObj 1]"
    by (simp add: GetIndex_def hydrogen_mol_def)
  have b: "freeze_loop [IntObj 1] as OBFFConstraints = []" for as
    using freeze_loop_indices [of "[1]" as "[]"] by (simp add: OBFFConstraints_def)
  have c: "ref_FindType ''mmff94'' = OBForceFieldObj 0"
    by (simp add: ref_FindType_def)
  have d: "(case confm_search ref_toolkit hydrogen_adaptor ''mmff94'' (Some [IntObj 1])
             (1 / 2) 50 100000 False False False hydrogen_world of
        (result, self, w) \<Rightarrow>
          result = Inr NoneObj
          \<and> ff_constraints (ffs w 0) = []
          \<and> ff_calls (ffs w 0) = [''SetConstraints'', ''WeightedRotorSearch'', ''DiverseConfGen''])"
    by (simp add: confm_search_def openbabel_mol_def hydrogen_adaptor_def c py_eq_def Let_def
          freeze_block_def b search_block_def ff_call_def ff_GetConformers_def
          py_print_def call_def hydrogen_world_def ref_toolkit_fields ff_logged_def empty_ff_def)
  from a b d show ?thesis by blast
qed

subsection \<open>The constructor on an ordered molecule\<close>

lemma call_call: "call r g (call r f w) = call r (\<lambda>h. g (f h)) w"
  by (simp add: call_def)

lemma ordered_site_atom:
  "site_is_ordered s \<Longrightarrow>
     \<exists>z. specie s = Inr z
        \<and> native_atom s = [\<lparr>atomic_num = z, vector = coords s, idx = 0\<rparr>]"
  by (cases "coords s")
     (auto simp: site_is_ordered_def specie_def native_atom_def SetVector_def
        SetAtomicNum_def OBAtom_def split: list.splits prod.splits)

lemma add_atoms_ordered:
  "list_all site_is_ordered ss \<Longrightarrow>
     add_atoms tk ss r w =
       Inr (call r (\<lambda>h. foldl (\<lambda>h a. AddAtom tk a h) h (concat (map native_atom ss))) w)"
proof (induction ss arbitrary: w)
  case Nil
  show ?case by (simp add: call_def)
next
  case (Cons s ss)
  from Cons.prems have s: "site_is_ordered s" and ss: "list_all site_is_ordered ss"
    by simp_all
  obtain x y z where c: "coords s = (x, y, z)" by (cases "coords s")
  from ordered_site_atom [OF s] obtain atomno where
    sp: "specie s = Inr atomno"
    and at: "native_atom s = [\<lparr>atomic_num = atomno, vector = coords s, idx = 0\<rparr>]"
    by blast
  have "add_atoms tk (s # ss) r w =
      add_atoms tk ss r (call r (AddAtom tk \<lparr>atomic_num = atomno, vector = coords s, idx = 0\<rparr>) w)"
    by (simp add: c sp SetVector_def SetAtomicNum_def OBAtom_def)
  also have "\<dots> = Inr (call r (\<lambda>h. foldl (\<lambda>h a. AddAtom tk a h) h (concat (map native_atom (s # ss)))) w)"
    by (simp add: Cons.IH [OF ss] call_call at)
  finally show ?case .
qed

lemma init_ordered:
  assumes "is_ordered m"
  shows "BabelMolAdaptor (Some tk) (MoleculeObj m) w =
     (Inr \<lparr>self_obmol = Some (Suc (next_ref w))\<rparr>,
      w\<lparr>heap := (heap w)(next_ref w := OBMol tk, Suc (next_ref w) := built tk m),
        next_ref := Suc (Suc (next_ref w))\<rparr>)"
proof -
  from assms have o: "list_all site_is_ordered (sites m)"
    by (simp add: is_ordered_def)
  show ?thesis
    using assms
    by (simp add: BabelMolAdaptor_def requires_def init_body_def new_object_def
          add_atoms_ordered [OF o] call_def built_def native_atoms_def)
qed

lemma native_atoms_species:
  assumes "is_ordered m"
  shows "map specie (sites m) = map (\<lambda>a. Inr (atomic_num a)) (native_atoms m)"
    and "map coords (sites m) = map vector (native_atoms m)"
    and "length (native_atoms m) = length (sites m)"
    and "map idx (native_atoms m) = replicate (length (sites m)) 0"
proof -
  have "list_all site_is_ordered ss \<Longrightarrow>
      map specie ss = map (\<lambda>a. Inr (atomic_num a)) (concat (map native_atom ss))
      \<and> map coords ss = map vector (concat (map native_atom ss))
      \<and> length (concat (map native_atom ss)) = length ss
      \<and> map idx (concat (map native_atom ss)) = replicate (length ss) 0" for ss
  proof (induction ss)
    case Nil
    show ?case by simp
  next
    case (Cons s ss)
    from Cons.prems ordered_site_atom [of s] obtain z where
      "specie s = Inr z" "native_atom s = [\<lparr>atomic_num = z, vector = coords s, idx = 0\<rparr>]"
      by auto
    with Cons show ?case by simp
  qed
  with assms show "map specie (sites m) = map (\<lambda>a. Inr (atomic_num a)) (native_atoms m)"
    and "map coords (sites m) = map vector (native_atoms m)"
    and "length (native_atoms m) = length (sites m)"
    and "map idx (native_atoms m) = replicate (length (sites m)) 0"
    by (simp_all add: is_ordered_def native_atoms_def)
qed

lemma foldl_AddAtom:
  assumes "\<forall>a h. OBMolAtomIter tk (AddAtom tk a h)
                 = OBMolAtomIter tk h @ [a\<lparr>idx := length (OBMolAtomIter tk h)\<rparr>]"
  shows "map atomic_num (OBMolAtomIter tk (foldl (\<lambda>h a. AddAtom tk a h) h as))
           = map atomic_num (OBMolAtomIter tk h) @ map atomic_num as
       \<and> map vector (OBMolAtomIter tk (foldl (\<lambda>h a. AddAtom tk a h) h as))
           = map vector (OBMolAtomIter tk h) @ map vector as
       \<and> map idx (OBMolAtomIter tk (foldl (\<lambda>h a. AddAtom tk a h) h as))
           = map idx (OBMolAtomIter tk h)
             @ [length (OBMolAtomIter tk h) ..< length (OBMolAtomIter tk h) + length as]"
proof (induction as arbitrary: h)
  case Nil
  show ?case by simp
next
  case (Cons a as)
  have "[length (OBMolAtomIter tk h) ..< length (OBMolAtomIter tk h) + length (a # as)]
      = length (OBMolAtomIter tk h)
        # [Suc (length (OBMolAtomIter tk h)) ..< Suc (length (OBMolAtomIter tk h)) + length as]"
    using upt_conv_Cons [of "length (OBMolAtomIter tk h)"
            "length (OBMolAtomIter tk h) + length (a # as)"]
    by (simp del: upt_Suc)
  with Cons [of "AddAtom tk a h"] assms show ?case by (simp del: upt_Suc)
qed

lemma atoms_before_center:
  assumes "atoms_contract tk"
  shows "map atomic_num (OBMolAtomIter tk
           (SetTotalCharge tk c (SetTotalSpinMultiplicity tk s (PerceiveBondOrders tk
             (ConnectTheDots tk (foldl (\<lambda>h a. AddAtom tk a h) (BeginModify tk (OBMol tk)) as))))))
           = map atomic_num as"
    and "map vector (OBMolAtomIter tk
           (SetTotalCharge tk c (SetTotalSpinMultiplicity tk s (PerceiveBondOrders tk
             (ConnectTheDots tk (foldl (\<lambda>h a. AddAtom tk a h) (BeginModify tk (OBMol tk)) as))))))
           = map vector as"
    and "map idx (OBMolAtomIter tk
           (SetTotalCharge tk c (SetTotalSpinMultiplicity tk s (PerceiveBondOrders tk
             (ConnectTheDots tk (foldl (\<lambda>h a. AddAtom tk a h) (BeginModify tk (OBMol tk)) as))))))
           = [0 ..< length as]"
proof -
  from assms have add: "\<forall>a h. OBMolAtomIter tk (AddAtom tk a h)
                 = OBMolAtomIter tk h @ [a\<lparr>idx := length (OBMolAtomIter tk h)\<rparr>]"
    and start: "OBMolAtomIter tk (BeginModify tk (OBMol tk)) = []"
    and same: "\<And>h. OBMolAtomIter tk (SetTotalCharge tk c (SetTotalSpinMultiplicity tk s
                  (PerceiveBondOrders tk (ConnectTheDots tk h)))) = OBMolAtomIter tk h"
    by (simp_all add: atoms_contract_def same_atoms_def)
  from foldl_AddAtom [OF add, of "BeginModify tk (OBMol tk)" as] start same
  show "map atomic_num (OBMolAtomIter tk
           (SetTotalCharge tk c (SetTotalSpinMultiplicity tk s (PerceiveBondOrders tk
             (ConnectTheDots tk (foldl (\<lambda>h a. AddAtom tk a h) (BeginModify tk (OBMol tk)) as))))))
           = map atomic_num as"
    and "map vector (OBMolAtomIter tk
           (SetTotalCharge tk c (SetTotalSpinMultiplicity tk s (PerceiveBondOrders tk
             (ConnectTheDots tk (foldl (\<lambda>h a. AddAtom tk a h) (BeginModify tk (OBMol tk)) as))))))
           = map vector as"
    and "map idx (OBMolAtomIter tk
           (SetTotalCharge tk c (SetTotalSpinMultiplicity tk s (PerceiveBondOrders tk
             (ConnectTheDots tk (foldl (\<lambda>h a. AddAtom tk a h) (BeginModify tk (OBMol tk)) as))))))
           = [0 ..< length as]"
    by simp_all
qed

lemma atoms_after_center:
  assumes "atoms_contract tk"
  shows "OBMolAtomIter tk (EndModify tk (Kekulize tk h)) = OBMolAtomIter tk h"
  using assms by (simp add: atoms_contract_def same_atoms_def)

lemma ref_toolkit_atoms_contract: "atoms_contract ref_toolkit"
  by (simp add: atoms_contract_def same_atoms_def ref_toolkit_fields logged_def
        ref_AddAtom_def empty_mol_def)

lemma ref_toolkit_center_contract: "center_contract ref_toolkit"
  by (simp add: center_contract_def ref_toolkit_fields logged_def ref_Center_def)

lemma center_contract_same_species:
  "center_contract tk \<Longrightarrow> same_species tk (Center tk)"
  by (simp add: center_contract_def same_species_def comp_def)

lemma hydrogen_molecule_ordered: "is_ordered hydrogen_molecule"
  by (simp add: is_ordered_def hydrogen_molecule_def site_is_ordered_def)

lemma hydrogen_cation_ordered: "is_ordered hydrogen_cation"
  by (simp add: is_ordered_def hydrogen_cation_def site_is_ordered_def)

text \<open>
  C5. For an ordered molecule the constructor returns an adaptor whose handle is in the
  state \<open>built\<close>: inside one BeginModify/EndModify session, one \<open>AddAtom\<close> per site in
  the order of the sites, each atom with the atomic number and the coordinates of its
  site, then ConnectTheDots, PerceiveBondOrders, SetTotalSpinMultiplicity,
  SetTotalCharge, Center and Kekulize. On a toolkit whose calls treat the atoms as
  \<open>atoms_contract\<close> says and whose \<open>Center\<close> only moves them, the handle has as many
  atoms as the molecule has sites, in the order of the sites.
\<close>

theorem construction_builds_in_order:
  assumes "is_ordered m"
  shows "\<exists>a w'. BabelMolAdaptor (Some tk) (MoleculeObj m) w = (Inr a, w')
      \<and> self_obmol a = Some (Suc (next_ref w))
      \<and> heap w' (Suc (next_ref w)) = built tk m
      \<and> map (\<lambda>a. Inr (atomic_num a)) (native_atoms m) = map specie (sites m)
      \<and> map vector (native_atoms m) = map coords (sites m)
      \<and> (atoms_contract tk \<and> same_species tk (Center tk) \<longrightarrow>
           length (OBMolAtomIter tk (heap w' (Suc (next_ref w)))) = length (sites m)
           \<and> map (\<lambda>a. Inr (atomic_num a)) (OBMolAtomIter tk (heap w' (Suc (next_ref w))))
               = map specie (sites m)
           \<and> map idx (OBMolAtomIter tk (heap w' (Suc (next_ref w)))) = [0 ..< length (sites m)])"
proof -
  let ?w = "w\<lparr>heap := (heap w)(next_ref w := OBMol tk, Suc (next_ref w) := built tk m),
        next_ref := Suc (Suc (next_ref w))\<rparr>"
  have h: "heap ?w (Suc (next_ref w)) = built tk m" by simp
  have read: "length (OBMolAtomIter tk (built tk m)) = length (sites m)
           \<and> map (\<lambda>a. Inr (atomic_num a)) (OBMolAtomIter tk (built tk m)) = map specie (sites m)
           \<and> map idx (OBMolAtomIter tk (built tk m)) = [0 ..< length (sites m)]"
    if c: "atoms_contract tk" and s: "same_species tk (Center tk)"
  proof -
    from s atoms_before_center [OF c, of "charge m" "spin_multiplicity m" "native_atoms m"]
    have z: "map atomic_num (OBMolAtomIter tk (built tk m)) = map atomic_num (native_atoms m)"
      and i: "map idx (OBMolAtomIter tk (built tk m)) = [0 ..< length (native_atoms m)]"
      by (simp_all add: built_def atoms_after_center [OF c] same_species_def)
    have e: "map (\<lambda>a. Inr (atomic_num a)) xs = map Inr (map atomic_num xs)"
      for xs :: "obatom list"
      by (simp add: comp_def)
    from z have "map (\<lambda>a. Inr (atomic_num a)) (OBMolAtomIter tk (built tk m))
        = map (\<lambda>a. Inr (atomic_num a)) (native_atoms m)"
      by (simp only: e)
    moreover from z have "length (OBMolAtomIter tk (built tk m)) = length (native_atoms m)"
      by (metis length_map)
    ultimately show ?thesis
      using i native_atoms_species [OF assms] by simp
  qed
  from init_ordered [OF assms, of tk w] h read native_atoms_species [OF assms]
  show ?thesis by auto
qed

theorem construction_builds_in_order_witness:
  "is_ordered hydrogen_molecule
   \<and> atoms_contract ref_toolkit
   \<and> same_species ref_toolkit (Center ref_toolkit)
   \<and> (\<exists>a w'. BabelMolAdaptor (Some ref_toolkit) (MoleculeObj hydrogen_molecule) ref_world
               = (Inr a, w')
        \<and> self_obmol a = Some 1
        \<and> calls (heap w' 1) =
            [''BeginModify'', ''AddAtom'', ''AddAtom'', ''ConnectTheDots'',
             ''PerceiveBondOrders'', ''SetTotalSpinMultiplicity'', ''SetTotalCharge'',
             ''Center'', ''Kekulize'', ''EndModify'']
        \<and> length (atoms (heap w' 1)) = 2
        \<and> map atomic_num (atoms (heap w' 1)) = [1, 1]
        \<and> map idx (atoms (heap w' 1)) = [0, 1])"
proof -
  have s: "same_species ref_toolkit (Center ref_toolkit)"
    by (rule center_contract_same_species [OF ref_toolkit_center_contract])
  have b: "calls (built ref_toolkit hydrogen_molecule) =
            [''BeginModify'', ''AddAtom'', ''AddAtom'', ''ConnectTheDots'',
             ''PerceiveBondOrders'', ''SetTotalSpinMultiplicity'', ''SetTotalCharge'',
             ''Center'', ''Kekulize'', ''EndModify'']"
    by (simp add: built_def native_atoms_def native_atom_def specie_def hydrogen_molecule_def
          ref_toolkit_fields logged_def ref_AddAtom_def ref_Center_def empty_mol_def)
  have n: "next_ref ref_world = 0" by (simp add: ref_world_def)
  have sp: "map specie (sites hydrogen_molecule) = [Inr 1, Inr 1]"
    by (simp add: hydrogen_molecule_def specie_def)
  from construction_builds_in_order [OF hydrogen_molecule_ordered, of ref_toolkit ref_world]
    ref_toolkit_atoms_contract s
  obtain a w' where
    r: "BabelMolAdaptor (Some ref_toolkit) (MoleculeObj hydrogen_molecule) ref_world = (Inr a, w')"
    and r1: "self_obmol a = Some 1" and r2: "heap w' 1 = built ref_toolkit hydrogen_molecule"
    and r3: "length (atoms (heap w' 1)) = length (sites hydrogen_molecule)"
    and r4: "map (\<lambda>a. Inr (atomic_num a)) (atoms (heap w' 1)) = map specie (sites hydrogen_molecule)"
    and r5: "map idx (atoms (heap w' 1)) = [0 ..< length (sites hydrogen_molecule)]"
    by (auto simp: n ref_toolkit_fields)
  from r3 have l: "length (atoms (heap w' 1)) = 2" by (simp add: hydrogen_molecule_def)
  from r5 have i: "map idx (atoms (heap w' 1)) = [0, 1]"
    by (simp add: hydrogen_molecule_def upt_conv_Cons)
  from r4 sp have z: "map atomic_num (atoms (heap w' 1)) = [1, 1]"
    by auto
  from r r1 r2 b l i z hydrogen_molecule_ordered ref_toolkit_atoms_contract s
  show ?thesis by auto
qed

subsection \<open>The fields of the toolkit inside a build session\<close>

lemma session_toolkit_fields:
  "OBMol session_toolkit = empty_mol"
  "BeginModify session_toolkit = logged ''BeginModify''"
  "AddAtom session_toolkit = ref_AddAtom"
  "ConnectTheDots session_toolkit = logged ''ConnectTheDots''"
  "PerceiveBondOrders session_toolkit = logged ''PerceiveBondOrders''"
  "SetTotalSpinMultiplicity session_toolkit s h
     = logged ''SetTotalSpinMultiplicity'' (h\<lparr>total_spin := s\<rparr>)"
  "SetTotalCharge session_toolkit c h = logged ''SetTotalCharge'' (h\<lparr>total_charge := c\<rparr>)"
  "Center session_toolkit = session_Center"
  "Kekulize session_toolkit = logged ''Kekulize''"
  "EndModify session_toolkit = session_EndModify"
  "OBMolAtomIter session_toolkit = atoms"
  "GetTotalCharge session_toolkit = total_charge"
  "GetTotalSpinMultiplicity session_toolkit = total_spin"
  "Build session_toolkit = logged ''Build''"
  "AddHydrogens session_toolkit = logged ''AddHydrogens''"
  "OBForceField_FindType session_toolkit = none_FindType"
  "WeightedRotorSearch session_toolkit n k f = ff_logged ''WeightedRotorSearch'' f"
  by (simp_all add: session_toolkit_def ref_toolkit_def)

lemma session_Center_in_session:
  "calls h = [''BeginModify'', ''AddAtom'', ''AddAtom'', ''ConnectTheDots'',
              ''PerceiveBondOrders'', ''SetTotalSpinMultiplicity'', ''SetTotalCharge'']
   \<Longrightarrow> session_Center h = logged ''Center'' h"
  by (simp add: session_Center_def in_session_def)

lemma built_session_toolkit:
  assumes "sites m = [\<lparr>species_and_occu = [(1, 1)], coords = (0, 0, 0)\<rparr>,
                      \<lparr>species_and_occu = [(1, 1)], coords = (0, 0, 1)\<rparr>]"
  shows "built session_toolkit m =
     \<lparr>atoms = [\<lparr>atomic_num = 1, vector = (0, 0, 0), idx = 0\<rparr>,
               \<lparr>atomic_num = 1, vector = (0, 0, 1), idx = 1\<rparr>],
      total_charge = 0, total_spin = 1, conformers = 0,
      calls = [''BeginModify'', ''AddAtom'', ''AddAtom'', ''ConnectTheDots'',
               ''PerceiveBondOrders'', ''SetTotalSpinMultiplicity'', ''SetTotalCharge'',
               ''Center'', ''Kekulize'', ''EndModify'']\<rparr>"
proof -
  let ?pre = "SetTotalCharge session_toolkit (charge m)
     (SetTotalSpinMultiplicity session_toolkit (spin_multiplicity m)
       (PerceiveBondOrders session_toolkit (ConnectTheDots session_toolkit
         (foldl (\<lambda>h a. AddAtom session_toolkit a h)
            (BeginModify session_toolkit (OBMol session_toolkit)) (native_atoms m)))))"
  have pre: "?pre =
     \<lparr>atoms = [\<lparr>atomic_num = 1, vector = (0, 0, 0), idx = 0\<rparr>,
               \<lparr>atomic_num = 1, vector = (0, 0, 1), idx = 1\<rparr>],
      total_charge = charge m, total_spin = spin_multiplicity m, conformers = 0,
      calls = [''BeginModify'', ''AddAtom'', ''AddAtom'', ''ConnectTheDots'',
               ''PerceiveBondOrders'', ''SetTotalSpinMultiplicity'', ''SetTotalCharge'']\<rparr>"
    by (simp add: native_atoms_def native_atom_def specie_def assms session_toolkit_fields
          logged_def ref_AddAtom_def empty_mol_def SetVector_def SetAtomicNum_def OBAtom_def)
  have "built session_toolkit m
      = EndModify session_toolkit (Kekulize session_toolkit (Center session_toolkit ?pre))"
    by (simp add: built_def)
  also have "\<dots> = session_EndModify (logged ''Kekulize'' (session_Center ?pre))"
    by (simp only: session_toolkit_fields)
  also have "session_Center ?pre = logged ''Center'' ?pre"
    by (rule session_Center_in_session) (simp add: pre)
  finally show ?thesis
    by (simp add: pre session_EndModify_def logged_def)
qed

subsection \<open>Charge and spin multiplicity\<close>

text \<open>
  C7. The handle the constructor leaves does not read back the charge and the spin
  multiplicity of the molecule. The constructor sets both inside the build session and
  then calls \<open>EndModify\<close>, which drops them: for the cation of charge \<open>+1\<close> and
  multiplicity \<open>2\<close> the handle reads back \<open>0\<close> and \<open>1\<close>, with \<open>SetTotalSpinMultiplicity\<close>
  and \<open>SetTotalCharge\<close> in its log before \<open>EndModify\<close>.
\<close>

theorem charge_and_spin_dropped_by_EndModify:
  "charge hydrogen_cation = 1
   \<and> spin_multiplicity hydrogen_cation = 2
   \<and> (\<exists>a w' r. BabelMolAdaptor (Some session_toolkit) (MoleculeObj hydrogen_cation) ref_world
                 = (Inr a, w')
        \<and> openbabel_mol a = Inr r
        \<and> GetTotalCharge session_toolkit (heap w' r) = 0
        \<and> GetTotalSpinMultiplicity session_toolkit (heap w' r) = 1
        \<and> calls (heap w' r) =
            [''BeginModify'', ''AddAtom'', ''AddAtom'', ''ConnectTheDots'',
             ''PerceiveBondOrders'', ''SetTotalSpinMultiplicity'', ''SetTotalCharge'',
             ''Center'', ''Kekulize'', ''EndModify''])"
proof -
  have c: "charge hydrogen_cation = 1" and s: "spin_multiplicity hydrogen_cation = 2"
    by (simp_all add: hydrogen_cation_def)
  have b: "total_charge (built session_toolkit hydrogen_cation) = 0"
    "total_spin (built session_toolkit hydrogen_cation) = 1"
    "calls (built session_toolkit hydrogen_cation) =
            [''BeginModify'', ''AddAtom'', ''AddAtom'', ''ConnectTheDots'',
             ''PerceiveBondOrders'', ''SetTotalSpinMultiplicity'', ''SetTotalCharge'',
             ''Center'', ''Kekulize'', ''EndModify'']"
    by (simp_all add: built_session_toolkit hydrogen_cation_def)
  from init_ordered [OF hydrogen_cation_ordered, of session_toolkit ref_world] b
  have "\<exists>a w' r. BabelMolAdaptor (Some session_toolkit) (MoleculeObj hydrogen_cation) ref_world
                 = (Inr a, w')
        \<and> openbabel_mol a = Inr r
        \<and> GetTotalCharge session_toolkit (heap w' r) = 0
        \<and> GetTotalSpinMultiplicity session_toolkit (heap w' r) = 1
        \<and> calls (heap w' r) =
            [''BeginModify'', ''AddAtom'', ''AddAtom'', ''ConnectTheDots'',
             ''PerceiveBondOrders'', ''SetTotalSpinMultiplicity'', ''SetTotalCharge'',
             ''Center'', ''Kekulize'', ''EndModify'']"
    by (simp add: openbabel_mol_def session_toolkit_fields)
  with c s show ?thesis by (intro conjI)
qed

subsection \<open>The round trip\<close>

text \<open>
  C1. The round trip does not centre the coordinates. The constructor calls \<open>Center\<close>
  while its build session is open, where it moves no atom: a hydrogen molecule at
  \<open>(0, 0, 0)\<close> and \<open>(0, 0, 1)\<close>, whose centred positions are \<open>(0, 0, -1/2)\<close> and
  \<open>(0, 0, 1/2)\<close>, is read back by \<open>pymatgen_mol\<close> with its two species in order and at
  the positions it was given.
\<close>

theorem round_trip_leaves_coordinates_uncentred:
  "centered (map coords (sites hydrogen_molecule)) = [(0, 0, - 1 / 2), (0, 0, 1 / 2)]
   \<and> (\<exists>a w' m'. BabelMolAdaptor (Some session_toolkit) (MoleculeObj hydrogen_molecule) ref_world
                  = (Inr a, w')
        \<and> pymatgen_mol session_toolkit a w' = Inr m'
        \<and> map specie (sites m') = [Inr 1, Inr 1]
        \<and> map coords (sites m') = [(0, 0, 0), (0, 0, 1)]
        \<and> map coords (sites m') = map coords (sites hydrogen_molecule)
        \<and> map coords (sites m') \<noteq> centered (map coords (sites hydrogen_molecule)))"
proof -
  have cs: "map coords (sites hydrogen_molecule) = [(0, 0, 0), (0, 0, 1)]"
    by (simp add: hydrogen_molecule_def)
  have c: "centered (map coords (sites hydrogen_molecule)) = [(0, 0, - 1 / 2), (0, 0, 1 / 2)]"
    by (simp add: cs centered_def centroid_def vadd_def vsub_def)
  have b: "atoms (built session_toolkit hydrogen_molecule) =
      [\<lparr>atomic_num = 1, vector = (0, 0, 0), idx = 0\<rparr>,
       \<lparr>atomic_num = 1, vector = (0, 0, 1), idx = 1\<rparr>]"
    by (simp add: built_session_toolkit hydrogen_molecule_def)
  let ?r = "Suc (next_ref ref_world)"
  let ?w = "ref_world\<lparr>heap := (heap ref_world)(next_ref ref_world := OBMol session_toolkit,
        ?r := built session_toolkit hydrogen_molecule),
        next_ref := Suc (Suc (next_ref ref_world))\<rparr>"
  let ?m = "Molecule [1, 1] [(0, 0, 0), (0, 0, 1)]"
  have i: "BabelMolAdaptor (Some session_toolkit) (MoleculeObj hydrogen_molecule) ref_world
      = (Inr \<lparr>self_obmol = Some ?r\<rparr>, ?w)"
    by (rule init_ordered [OF hydrogen_molecule_ordered])
  have p: "pymatgen_mol session_toolkit \<lparr>self_obmol = Some ?r\<rparr> ?w = Inr ?m"
    using pymatgen_mol_eq [of "\<lparr>self_obmol = Some ?r\<rparr>" ?r session_toolkit ?w]
    by (simp add: session_toolkit_fields b)
  have m1: "map specie (sites ?m) = [Inr 1, Inr 1]"
    and m2: "map coords (sites ?m) = [(0, 0, 0), (0, 0, 1)]"
    by (simp_all add: Molecule_def specie_def)
  from m2 cs have m3: "map coords (sites ?m) = map coords (sites hydrogen_molecule)"
    by simp
  from m2 c have m4: "map coords (sites ?m) \<noteq> centered (map coords (sites hydrogen_molecule))"
    by simp
  from i p m1 m2 m3 m4
  have "\<exists>a w' m'. BabelMolAdaptor (Some session_toolkit) (MoleculeObj hydrogen_molecule) ref_world
                  = (Inr a, w')
        \<and> pymatgen_mol session_toolkit a w' = Inr m'
        \<and> map specie (sites m') = [Inr 1, Inr 1]
        \<and> map coords (sites m') = [(0, 0, 0), (0, 0, 1)]
        \<and> map coords (sites m') = map coords (sites hydrogen_molecule)
        \<and> map coords (sites m') \<noteq> centered (map coords (sites hydrogen_molecule))"
    by (intro exI conjI)
  with c show ?thesis by (intro conjI)
qed

subsection \<open>The conformer search\<close>

lemma ff_call_heap:
  "ff_call ff f w = Inr w' \<Longrightarrow> heap w' = heap w \<and> next_ref w' = next_ref w"
  by (cases ff) (auto simp: ff_call_def)

lemma freeze_block_heap:
  assumes "freeze_block tk ff r fa w = Inr w'"
  shows "heap w' = heap w \<and> next_ref w' = next_ref w"
proof (cases "bool_of_list fa")
  case False
  with assms show ?thesis by (simp add: freeze_block_def)
next
  case True
  then obtain x xs where fa: "fa = Some (x # xs)"
    by (cases fa rule: bool_of_list.cases) simp_all
  from assms obtain f w0 where "ff_call ff f w0 = Inr w'"
    and "heap w0 = heap w" and "next_ref w0 = next_ref w"
    by (simp add: freeze_block_def fa py_print_def Let_def)
  with ff_call_heap [of ff f w0 w'] show ?thesis by simp
qed

lemma search_block_forcefield:
  "\<exists>w'. search_block tk (OBForceFieldObj k) r rmsd energy conf verbose w = Inr w'
     \<and> ffs w' = (ffs w)(k := DiverseConfGen tk rmsd conf energy verbose
                                 (WeightedRotorSearch tk 500 25 (ffs w k)))
     \<and> heap w' = (heap w)(r := GetConformers tk (ffs w' k) (heap w r))
     \<and> next_ref w' = next_ref w
     \<and> (\<exists>out. stdout w' = stdout w @ out)"
  by (simp add: search_block_def ff_call_def ff_GetConformers_def call_def py_print_def)

lemma search_block_result:
  assumes "search_block tk ff r rmsd energy conf verbose w = Inr w'"
  shows "\<exists>k. ff = OBForceFieldObj k
     \<and> heap w' = (heap w)(r := GetConformers tk (ffs w' k) (heap w r))
     \<and> next_ref w' = next_ref w"
proof -
  from assms obtain k where k: "ff = OBForceFieldObj k"
    by (cases ff) (simp_all add: search_block_def ff_call_def)
  from search_block_forcefield [of tk k r rmsd energy conf verbose w] assms k
  show ?thesis by auto
qed

lemma confm_search_steps:
  assumes "self_obmol a = Some r"
  shows "confm_search tk a forcefield fa rmsd energy conf verbose make_3d add_h w =
     (let w1 = (if make_3d then call r (Build tk) w else w);
          w2 = (if add_h then call r (AddHydrogens tk) w1 else w1);
          miss = py_eq (OBForceField_FindType tk forcefield) (IntObj 0);
          ff = (if miss then OBForceField_FindType tk ''mmff94''
                else OBForceField_FindType tk forcefield);
          w3 = (if miss then py_print (not_found_message forcefield) w2 else w2)
      in (case freeze_block tk ff r fa w3 of
            Inl (e, w4) \<Rightarrow> (Inl e, a, w4)
          | Inr w4 \<Rightarrow>
              (case search_block tk ff r rmsd energy conf verbose w4 of
                 Inl (e, w5) \<Rightarrow> (Inl e, a, w5)
               | Inr w5 \<Rightarrow> (Inr NoneObj, a, w5))))"
proof -
  from assms have eq: "a\<lparr>self_obmol := Some r\<rparr> = a" by (cases a) simp
  from assms show ?thesis
    by (simp add: confm_search_def openbabel_mol_def Let_def eq cong: sum.case_cong)
qed

lemma prepared_heap:
  "heap (if add_h then call r (AddHydrogens tk) (if make_3d then call r (Build tk) w else w)
         else (if make_3d then call r (Build tk) w else w))
     = (heap w)(r := (if add_h then AddHydrogens tk else (\<lambda>h. h))
                       ((if make_3d then Build tk else (\<lambda>h. h)) (heap w r)))"
  by (simp add: call_def)

text \<open>
  C9. A call of \<open>confm_search\<close> that completes returns \<open>None\<close>. The adaptor is as it
  was: it holds the same reference, and the native molecule at that reference is the
  one it held, after \<open>Build\<close> and \<open>AddHydrogens\<close> where asked for, now carrying the
  conformers of the forcefield that ran the search. No other native molecule changes.
\<close>

theorem confm_search_returns_none:
  assumes "confm_search tk a forcefield fa rmsd energy conf verbose make_3d add_h w
             = (Inr v, a', w')"
  shows "v = NoneObj \<and> a' = a
     \<and> (\<exists>r k. self_obmol a' = Some r
           \<and> heap w' r = GetConformers tk (ffs w' k)
               ((if add_h then AddHydrogens tk else (\<lambda>h. h))
                  ((if make_3d then Build tk else (\<lambda>h. h)) (heap w r)))
           \<and> (\<forall>r'. r' \<noteq> r \<longrightarrow> heap w' r' = heap w r')
           \<and> next_ref w' = next_ref w)"
proof -
  from assms obtain r where r: "self_obmol a = Some r"
    by (auto simp: confm_search_def openbabel_mol_def split: option.splits)
  define w2 where "w2 = (if add_h then call r (AddHydrogens tk)
        (if make_3d then call r (Build tk) w else w) else (if make_3d then call r (Build tk) w else w))"
  define miss where "miss = py_eq (OBForceField_FindType tk forcefield) (IntObj 0)"
  define ff where "ff = (if miss then OBForceField_FindType tk ''mmff94''
                else OBForceField_FindType tk forcefield)"
  define w3 where "w3 = (if miss then py_print (not_found_message forcefield) w2 else w2)"
  have "confm_search tk a forcefield fa rmsd energy conf verbose make_3d add_h w =
         (case freeze_block tk ff r fa w3 of
            Inl (e, w4) \<Rightarrow> (Inl e, a, w4)
          | Inr w4 \<Rightarrow>
              (case search_block tk ff r rmsd energy conf verbose w4 of
                 Inl (e, w5) \<Rightarrow> (Inl e, a, w5)
               | Inr w5 \<Rightarrow> (Inr NoneObj, a, w5)))"
    using confm_search_steps [OF r, of tk forcefield fa rmsd energy conf verbose make_3d add_h w]
    unfolding Let_def w2_def miss_def ff_def w3_def .
  from trans [OF sym [OF this] assms]
  have s: "(case freeze_block tk ff r fa w3 of
            Inl (e, w4) \<Rightarrow> (Inl e, a, w4)
          | Inr w4 \<Rightarrow>
              (case search_block tk ff r rmsd energy conf verbose w4 of
                 Inl (e, w5) \<Rightarrow> (Inl e, a, w5)
               | Inr w5 \<Rightarrow> (Inr NoneObj, a, w5))) = (Inr v, a', w')" .
  then obtain w4 where f: "freeze_block tk ff r fa w3 = Inr w4"
    by (cases "freeze_block tk ff r fa w3") auto
  with s obtain w5 where b: "search_block tk ff r rmsd energy conf verbose w4 = Inr w5"
    by (cases "search_block tk ff r rmsd energy conf verbose w4") auto
  from s f b have res: "v = NoneObj" "a' = a" "w' = w5" by simp_all
  have h3: "heap w3 = heap w2" "next_ref w3 = next_ref w2"
    by (simp_all add: w3_def py_print_def)
  have h2: "heap w2 = (heap w)(r := (if add_h then AddHydrogens tk else (\<lambda>h. h))
                       ((if make_3d then Build tk else (\<lambda>h. h)) (heap w r)))"
    unfolding w2_def by (rule prepared_heap)
  have n2: "next_ref w2 = next_ref w"
    by (simp add: w2_def call_def)
  from freeze_block_heap [OF f] h3 have h4: "heap w4 = heap w2" "next_ref w4 = next_ref w2"
    by simp_all
  from search_block_result [OF b] obtain k where
    "heap w5 = (heap w4)(r := GetConformers tk (ffs w5 k) (heap w4 r))"
    "next_ref w5 = next_ref w4"
    by blast
  with h4 h2 n2 res r show ?thesis by auto
qed

theorem confm_search_returns_none_witness:
  "\<exists>w'. confm_search ref_toolkit hydrogen_adaptor ''uff'' None (1 / 2) 50 100000
            True False True hydrogen_world
          = (Inr NoneObj, hydrogen_adaptor, w')
     \<and> self_obmol hydrogen_adaptor = Some 0
     \<and> conformers (heap hydrogen_world 0) = 0
     \<and> conformers (heap w' 0) = 3
     \<and> calls (heap w' 0) = [''AddHydrogens'', ''GetConformers'']
     \<and> next_ref w' = next_ref hydrogen_world"
proof -
  have r: "self_obmol hydrogen_adaptor = Some 0" by (simp add: hydrogen_adaptor_def)
  have ff: "ref_FindType ''uff'' = OBForceFieldObj 1" by (simp add: ref_FindType_def)
  obtain res a' w' where e: "confm_search ref_toolkit hydrogen_adaptor ''uff'' None (1 / 2) 50
      100000 True False True hydrogen_world = (res, a', w')"
    by (cases "confm_search ref_toolkit hydrogen_adaptor ''uff'' None (1 / 2) 50
      100000 True False True hydrogen_world")
  have "fst (confm_search ref_toolkit hydrogen_adaptor ''uff'' None (1 / 2) 50
      100000 True False True hydrogen_world) = Inr NoneObj
      \<and> conformers (heap (snd (snd (confm_search ref_toolkit hydrogen_adaptor ''uff'' None
           (1 / 2) 50 100000 True False True hydrogen_world))) 0) = 3
      \<and> calls (heap (snd (snd (confm_search ref_toolkit hydrogen_adaptor ''uff'' None
           (1 / 2) 50 100000 True False True hydrogen_world))) 0)
          = [''AddHydrogens'', ''GetConformers'']"
    by (simp add: confm_search_steps [OF r] Let_def ref_toolkit_fields ff py_eq_def
          freeze_block_def search_block_def ff_call_def ff_GetConformers_def call_def
          py_print_def hydrogen_world_def hydrogen_mol_def logged_def ff_logged_def empty_ff_def)
  with e have v: "res = Inr NoneObj" and c: "conformers (heap w' 0) = 3"
    and l: "calls (heap w' 0) = [''AddHydrogens'', ''GetConformers'']"
    by simp_all
  from confm_search_returns_none [OF e [unfolded v]]
  have "a' = hydrogen_adaptor" and "next_ref w' = next_ref hydrogen_world" by auto
  moreover have "conformers (heap hydrogen_world 0) = 0"
    by (simp add: hydrogen_world_def hydrogen_mol_def)
  ultimately show ?thesis using e v c l r by simp
qed

text \<open>
  When the lookup gives \<open>None\<close>, the test \<open>ff == 0\<close> of line 145 is false: no notice is
  printed, no forcefield is substituted, and the first method call on the value raises.
\<close>

lemma unknown_forcefield_none_raises:
  assumes "self_obmol a = Some r" and "OBForceField_FindType tk forcefield = NoneObj"
  shows "fst (confm_search tk a forcefield fa rmsd energy conf verbose make_3d add_h w)
           = Inl AttributeError"
proof -
  define w3 where "w3 = (if add_h then call r (AddHydrogens tk)
        (if make_3d then call r (Build tk) w else w) else (if make_3d then call r (Build tk) w else w))"
  have pe: "py_eq NoneObj (IntObj 0) = False" by (simp add: py_eq_def)
  have steps: "confm_search tk a forcefield fa rmsd energy conf verbose make_3d add_h w =
         (case freeze_block tk NoneObj r fa w3 of
            Inl (e, w4) \<Rightarrow> (Inl e, a, w4)
          | Inr w4 \<Rightarrow>
              (case search_block tk NoneObj r rmsd energy conf verbose w4 of
                 Inl (e, w5) \<Rightarrow> (Inl e, a, w5)
               | Inr w5 \<Rightarrow> (Inr NoneObj, a, w5)))"
    using confm_search_steps [OF assms(1), of tk forcefield fa rmsd energy conf verbose make_3d add_h w]
    unfolding Let_def assms(2) pe if_False w3_def .
  have s: "search_block tk NoneObj r rmsd energy conf verbose w4 = Inl (AttributeError, w4)"
    for w4
    by (simp add: search_block_def ff_call_def)
  have "(\<exists>w0. freeze_block tk NoneObj r fa w3 = Inl (AttributeError, w0))
      \<or> freeze_block tk NoneObj r fa w3 = Inr w3"
    by (cases fa rule: bool_of_list.cases) (simp_all add: freeze_block_def ff_call_def)
  then show ?thesis
  proof
    assume "\<exists>w0. freeze_block tk NoneObj r fa w3 = Inl (AttributeError, w0)"
    then show ?thesis by (auto simp: steps)
  next
    assume "freeze_block tk NoneObj r fa w3 = Inr w3"
    then show ?thesis by (simp add: steps s)
  qed
qed

text \<open>
  C6. A forcefield name that the toolkit cannot resolve makes \<open>confm_search\<close> raise. The
  lookup of \<open>bogus\<close> gives \<open>None\<close>, which the test \<open>ff == 0\<close> does not detect: the call
  ends with AttributeError, nothing is printed, mmff94 (which the toolkit has) is never
  looked up or used, and the store is as it was.
\<close>

theorem unknown_forcefield_not_detected:
  "OBForceField_FindType session_toolkit ''bogus'' = NoneObj
   \<and> OBForceField_FindType session_toolkit ''mmff94'' = OBForceFieldObj 0
   \<and> confm_search session_toolkit hydrogen_adaptor ''bogus'' None (1 / 2) 50 100000
          False False False hydrogen_world
       = (Inl AttributeError, hydrogen_adaptor, hydrogen_world)
   \<and> stdout hydrogen_world = []"
proof -
  have r: "self_obmol hydrogen_adaptor = Some 0" by (simp add: hydrogen_adaptor_def)
  have m: "none_FindType ''bogus'' = NoneObj" and d: "none_FindType ''mmff94'' = OBForceFieldObj 0"
    by (simp_all add: none_FindType_def)
  have "confm_search session_toolkit hydrogen_adaptor ''bogus'' None (1 / 2) 50 100000
          False False False hydrogen_world
       = (Inl AttributeError, hydrogen_adaptor, hydrogen_world)"
    by (simp add: confm_search_steps [OF r] Let_def session_toolkit_fields m py_eq_def
          freeze_block_def search_block_def ff_call_def)
  moreover have "stdout hydrogen_world = []" by (simp add: hydrogen_world_def)
  ultimately show ?thesis by (simp add: session_toolkit_fields m d)
qed

subsection \<open>The other two ways into the constructor\<close>

text \<open>
  Without the toolkit the decorated constructor raises RuntimeError whatever its
  argument is; with it, a native molecule is adopted as it is.
\<close>

lemma constructor_requires_toolkit:
  "BabelMolAdaptor None mol w = (Inl RuntimeError, w)"
  by (simp add: BabelMolAdaptor_def requires_def)

lemma constructor_adopts_handle:
  "BabelMolAdaptor (Some tk) (OBMolObj r) w = (Inr \<lparr>self_obmol = Some r\<rparr>, w)"
  by (simp add: BabelMolAdaptor_def requires_def init_body_def)

end
